theory Spec2Isabelle
  imports Main
begin

section \<open>Python values used by \<open>gdata/contacts/service.py\<close>\<close>

text \<open>
  The module raises nothing itself; the exceptions that can leave its methods are the
  transport's request error, which carries the status code, the reason phrase and the
  response body, and the interpreter's own errors: an attribute read on \<open>None\<close> and a
  malformed \<open>%\<close> format.
\<close>

datatype error =
    RequestError nat string string
  | AttributeError string
  | TypeError string
  | ValueError string

fun is_RequestError :: "error \<Rightarrow> bool" where
  "is_RequestError (RequestError s r b) = True"
| "is_RequestError (AttributeError m) = False"
| "is_RequestError (TypeError m) = False"
| "is_RequestError (ValueError m) = False"

definition bind :: "error + 'a \<Rightarrow> ('a \<Rightarrow> error + 'b) \<Rightarrow> error + 'b" where
  "bind m f = (case m of Inl e \<Rightarrow> Inl e | Inr x \<Rightarrow> f x)"

text \<open>
  An optional string argument is \<open>None\<close> or a \<open>str\<close>. Python's truth test holds
  neither of \<open>None\<close> nor of the empty string; \<open>a or b\<close> is \<open>a\<close> when \<open>a\<close> is true
  and \<open>b\<close> otherwise; \<open>str(None)\<close> is the text \<open>None\<close>.
\<close>

fun truthy :: "string option \<Rightarrow> bool" where
  "truthy None = False"
| "truthy (Some s) = (s \<noteq> [])"

definition py_or :: "string option \<Rightarrow> string option \<Rightarrow> string option" where
  "py_or a b = (if truthy a then a else b)"

fun py_str :: "string option \<Rightarrow> string" where
  "py_str None = ''None''"
| "py_str (Some s) = s"

text \<open>
  The \<open>%\<close> operator on a format string, for the directives \<open>%s\<close> and \<open>%%\<close>: each
  \<open>%s\<close> takes the next argument, and too few or too many arguments raise.
\<close>

fun py_format :: "string \<Rightarrow> string list \<Rightarrow> error + string" where
  "py_format [] [] = Inr []"
| "py_format [] (a # as) =
     Inl (TypeError ''not all arguments converted during string formatting'')"
| "py_format [c] args =
     (if c = CHR ''%'' then Inl (ValueError ''incomplete format'')
      else bind (py_format [] args) (\<lambda>r. Inr (c # r)))"
| "py_format (c # d # ds) args =
     (if c \<noteq> CHR ''%'' then bind (py_format (d # ds) args) (\<lambda>r. Inr (c # r))
      else if d = CHR ''%'' then bind (py_format ds args) (\<lambda>r. Inr (CHR ''%'' # r))
      else if d = CHR ''s'' then
        (case args of
           [] \<Rightarrow> Inl (TypeError ''not enough arguments for format string'')
         | a # as \<Rightarrow> bind (py_format ds as) (\<lambda>r. Inr (a @ r)))
      else Inl (ValueError ''unsupported format character''))"

text \<open>\<open>str.startswith\<close> and the slice \<open>uri[n:]\<close>.\<close>

fun startswith :: "string \<Rightarrow> string \<Rightarrow> bool" where
  "startswith s [] = True"
| "startswith [] (p # ps) = False"
| "startswith (c # cs) (p # ps) = (c = p \<and> startswith cs ps)"

definition slice_from :: "nat \<Rightarrow> string \<Rightarrow> string" where
  "slice_from n s = drop n s"

section \<open>The client and its feed URIs\<close>

text \<open>
  \<open>ContactsService.__init__\<close> stores the contact list and hands the server name to the
  base class; both are strings, \<open>www.google.com\<close> and \<open>default\<close> unless given.
\<close>

record ContactsService =
  server :: string
  contact_list :: string

definition init :: "string option \<Rightarrow> string option \<Rightarrow> ContactsService" where
  "init server_arg contact_list_arg =
     \<lparr> server = (case server_arg of None \<Rightarrow> ''www.google.com'' | Some s \<Rightarrow> s),
       contact_list = (case contact_list_arg of None \<Rightarrow> ''default'' | Some l \<Rightarrow> l) \<rparr>"

text \<open>
  \<open>GetFeedUri(self, kind='contacts', contact_list=None, projection='full', scheme=None)\<close>.
  The prefix is \<open>scheme and '%s://%s' % (scheme, self.server) or ''\<close>: the format is
  evaluated only when the scheme is true, and an empty outcome would be replaced by
  the empty string again.
\<close>

definition GetFeedUri ::
  "ContactsService \<Rightarrow> string \<Rightarrow> string option \<Rightarrow> string \<Rightarrow> string option \<Rightarrow> error + string"
where
  "GetFeedUri self kind contact_list_arg projection scheme =
     (let contact_list0 = py_str (py_or contact_list_arg (Some (contact_list self))) in
      bind (if kind = ''profiles'' then py_format ''domain/%s'' [contact_list0]
            else Inr contact_list0) (\<lambda>contact_list1.
      bind (if truthy scheme
            then bind (py_format ''%s://%s'' [py_str scheme, server self])
                   (\<lambda>f. Inr (if f \<noteq> [] then f else []))
            else Inr []) (\<lambda>prefix.
      py_format ''%s/m8/feeds/%s/%s/%s'' [prefix, kind, contact_list1, projection])))"

text \<open>
  \<open>_CleanUri(self, uri)\<close>: a test on the text of the URI and a slice; the URI is not
  parsed.
\<close>

definition CleanUri :: "ContactsService \<Rightarrow> string \<Rightarrow> error + string" where
  "CleanUri self uri =
     bind (py_format ''http://%s'' [server self]) (\<lambda>url_prefix.
       Inr (if startswith uri url_prefix then slice_from (length url_prefix) uri else uri))"

section \<open>The transport behind the client\<close>

text \<open>
  \<open>ContactsService\<close> inherits \<open>Get\<close>, \<open>Post\<close>, \<open>Put\<close> and \<open>Delete\<close> from
  \<open>gdata.service.GDataService\<close>, and takes its entry classes, converters and media
  source from \<open>gdata\<close> and \<open>gdata.contacts\<close>. None of them is defined in
  \<open>gdata/contacts/service.py\<close>.
\<close>

datatype http_method = GET | POST | PUT | DELETE

record MediaSource =
  file_handle :: "nat option"
  content_type :: "string option"
  content_length :: "nat option"
  file_path :: "string option"

text \<open>
  What a request carries: an object of \<open>gdata.contacts\<close> (an entry or a feed, of the
  type \<open>'o\<close>) or a media source.
\<close>

datatype 'o payload = Atom 'o | Media MediaSource

record 'o request =
  req_method :: http_method
  req_uri :: string
  req_data :: "'o payload option"
  req_url_params :: "(string \<times> string) list option"
  req_escape_params :: bool

record response =
  status :: nat
  reason :: string
  body :: string

text \<open>
  The state of the transport: how the server answers a request, and the requests sent
  so far, oldest first.
\<close>

record 'o transport =
  respond :: "'o request \<Rightarrow> response"
  sent :: "'o request list"

definition is_success :: "nat \<Rightarrow> bool" where
  "is_success code = (200 \<le> code \<and> code < 300)"

text \<open>
  Modelled from the spec: the request methods of \<open>gdata.service.GDataService\<close> are
  missing. Each call is one network round trip; a response whose status is not 2xx is
  raised as a request error carrying the status code, the reason phrase and the response
  body, and the body of any other response is handed to the converter.
\<close>

definition round_trip ::
  "'o request \<Rightarrow> (string \<Rightarrow> 'a) \<Rightarrow> 'o transport \<Rightarrow> (error + 'a) \<times> 'o transport"
where
  "round_trip rq converter t =
     (let rs = respond t rq in
      (if is_success (status rs) then Inr (converter (body rs))
       else Inl (RequestError (status rs) (reason rs) (body rs)),
       t\<lparr>sent := sent t @ [rq]\<rparr>))"

text \<open>Modelled from the spec: \<open>get(uri, params?, converter?)\<close> of the missing transport.\<close>

definition Get ::
  "string \<Rightarrow> (string \<Rightarrow> 'a) \<Rightarrow> 'o transport \<Rightarrow> (error + 'a) \<times> 'o transport"
where
  "Get uri converter t =
     round_trip \<lparr>req_method = GET, req_uri = uri, req_data = None,
                 req_url_params = None, req_escape_params = True\<rparr> converter t"

text \<open>
  Modelled from the spec: \<open>post(body, uri, params?, escapeParams?, converter?)\<close> of the
  missing transport.
\<close>

definition Post ::
  "'o payload \<Rightarrow> string \<Rightarrow> (string \<times> string) list option \<Rightarrow> bool \<Rightarrow> (string \<Rightarrow> 'a)
   \<Rightarrow> 'o transport \<Rightarrow> (error + 'a) \<times> 'o transport"
where
  "Post payload uri url_params escape_params converter t =
     round_trip \<lparr>req_method = POST, req_uri = uri, req_data = Some payload,
                 req_url_params = url_params, req_escape_params = escape_params\<rparr>
       converter t"

text \<open>
  Modelled from the spec: \<open>put(body, uri, params?, escapeParams?, converter?)\<close> of the
  missing transport.
\<close>

definition Put ::
  "'o payload \<Rightarrow> string \<Rightarrow> (string \<times> string) list option \<Rightarrow> bool \<Rightarrow> (string \<Rightarrow> 'a)
   \<Rightarrow> 'o transport \<Rightarrow> (error + 'a) \<times> 'o transport"
where
  "Put payload uri url_params escape_params converter t =
     round_trip \<lparr>req_method = PUT, req_uri = uri, req_data = Some payload,
                 req_url_params = url_params, req_escape_params = escape_params\<rparr>
       converter t"

text \<open>
  Modelled from the spec: \<open>delete(uri, params?, escapeParams?) -> ack\<close> of the missing
  transport; the acknowledgement is \<open>True\<close>.
\<close>

definition Delete ::
  "string \<Rightarrow> (string \<times> string) list option \<Rightarrow> bool \<Rightarrow> 'o transport
   \<Rightarrow> (error + bool) \<times> 'o transport"
where
  "Delete uri url_params escape_params t =
     round_trip \<lparr>req_method = DELETE, req_uri = uri, req_data = None,
                 req_url_params = url_params, req_escape_params = escape_params\<rparr>
       (\<lambda>b. True) t"

text \<open>
  Modelled from the spec: a call that names no converter, as the \<open>Put\<close> of a photo
  does, returns the response as it came.
\<close>

definition no_converter :: "string \<Rightarrow> string" where
  "no_converter b = b"

text \<open>
  \<open>converter=str\<close>: the built-in \<open>str\<close>, given the response body. The body that
  the transport hands to a converter is a bytes object, and \<open>str\<close> of a bytes object
  is its \<open>repr\<close>: the letter \<open>b\<close>, a quote, the bytes, and the quote again. The
  quote is the double quote when the bytes hold a single quote and no double quote, and
  the single quote otherwise. Within the quotes the quote itself and the backslash
  follow a backslash; tab, newline and carriage return are written as a backslash and
  \<open>t\<close>, \<open>n\<close> or \<open>r\<close>; any other byte below the space or from 127 on is written as
  a backslash, \<open>x\<close> and two hexadecimal digits in lower case.
\<close>

definition hex_digit :: "nat \<Rightarrow> char" where
  "hex_digit n = (if n < 10 then char_of (48 + n) else char_of (87 + n))"

definition escape_byte :: "char \<Rightarrow> char \<Rightarrow> string" where
  "escape_byte quote c =
     (if c = quote \<or> c = CHR 0x5C then [CHR 0x5C, c]
      else if c = CHR 0x09 then [CHR 0x5C, CHR ''t'']
      else if c = CHR 0x0A then [CHR 0x5C, CHR ''n'']
      else if c = CHR 0x0D then [CHR 0x5C, CHR ''r'']
      else if (of_char c :: nat) < 32 \<or> 127 \<le> (of_char c :: nat)
        then [CHR 0x5C, CHR ''x'', hex_digit (of_char c div 16), hex_digit (of_char c mod 16)]
      else [c])"

definition bytes_repr :: "string \<Rightarrow> string" where
  "bytes_repr b =
     (let quote = (if CHR 0x27 \<in> set b \<and> CHR 0x22 \<notin> set b then CHR 0x22 else CHR 0x27)
      in [CHR ''b'', quote] @ concat (map (escape_byte quote) b) @ [quote])"

definition str :: "string \<Rightarrow> string" where
  "str b = bytes_repr b"

text \<open>
  The converters of \<open>gdata.contacts\<close> are missing and are taken as parameters: one
  function from the response body to an object for each kind of entry and feed.
\<close>

record 'o gdata_contacts =
  ContactsFeedFromString :: "string \<Rightarrow> 'o"
  ContactEntryFromString :: "string \<Rightarrow> 'o"
  GroupsFeedFromString :: "string \<Rightarrow> 'o"
  GroupEntryFromString :: "string \<Rightarrow> 'o"
  ProfilesFeedFromString :: "string \<Rightarrow> 'o"
  ProfileEntryFromString :: "string \<Rightarrow> 'o"

text \<open>
  Modelled from the spec: \<open>gdata.contacts.ContactEntry\<close> and its link getters are
  missing. A contact entry has an optional photo link and an optional photo-edit link,
  each with its \<open>href\<close>; a getter returns the link, or \<open>None\<close> when the entry lacks it.
\<close>

record Link =
  href :: string

record ContactEntry =
  photo_link :: "Link option"
  photo_edit_link :: "Link option"

definition GetPhotoLink :: "ContactEntry \<Rightarrow> Link option" where
  "GetPhotoLink entry = photo_link entry"

definition GetPhotoEditLink :: "ContactEntry \<Rightarrow> Link option" where
  "GetPhotoEditLink entry = photo_edit_link entry"

text \<open>The attribute read \<open>x.href\<close>, which raises when \<open>x\<close> is \<open>None\<close>.\<close>

fun get_href :: "Link option \<Rightarrow> error + string" where
  "get_href None = Inl (AttributeError ''NoneType object has no attribute href'')"
| "get_href (Some l) = Inr (href l)"

text \<open>
  Modelled from the spec: the constructor of \<open>gdata.MediaSource\<close> is missing; a media
  source carries the content type and the content length with the handle or the path it
  was given.
\<close>

definition MediaSource_init ::
  "nat option \<Rightarrow> string option \<Rightarrow> nat option \<Rightarrow> string option \<Rightarrow> MediaSource"
where
  "MediaSource_init fh ctype clen fpath =
     \<lparr>file_handle = fh, content_type = ctype, content_length = clen, file_path = fpath\<rparr>"

text \<open>
  The argument \<open>contact_entry_or_url\<close> of the photo methods, told apart by
  \<open>isinstance\<close>, and the argument \<open>media\<close> of \<open>ChangePhoto\<close>: a media source, an
  object with a \<open>read\<close> attribute, or a file name.
\<close>

datatype entry_or_url = Entry ContactEntry | Url string

datatype media = MediaSourceObject MediaSource | FileObject nat | FileName string

text \<open>
  A method that fails before it reaches the transport leaves the transport as it was.
\<close>

definition before_sending ::
  "error + 'a \<Rightarrow> ('a \<Rightarrow> 't \<Rightarrow> (error + 'b) \<times> 't) \<Rightarrow> 't \<Rightarrow> (error + 'b) \<times> 't"
where
  "before_sending m f t = (case m of Inl e \<Rightarrow> (Inl e, t) | Inr x \<Rightarrow> f x t)"

section \<open>Contacts\<close>

definition GetContactsFeed ::
  "'o gdata_contacts \<Rightarrow> ContactsService \<Rightarrow> string option \<Rightarrow> 'o transport
   \<Rightarrow> (error + 'o) \<times> 'o transport"
where
  "GetContactsFeed cv self uri_arg t =
     before_sending (if truthy uri_arg then Inr (py_str uri_arg)
          else GetFeedUri self ''contacts'' None ''full'' None)
       (\<lambda>uri. Get uri (ContactsFeedFromString cv)) t"

definition GetContact ::
  "'o gdata_contacts \<Rightarrow> ContactsService \<Rightarrow> string \<Rightarrow> 'o transport
   \<Rightarrow> (error + 'o) \<times> 'o transport"
where
  "GetContact cv self uri t = Get uri (ContactEntryFromString cv) t"

definition CreateContact ::
  "'o gdata_contacts \<Rightarrow> ContactsService \<Rightarrow> 'o payload \<Rightarrow> string option
   \<Rightarrow> (string \<times> string) list option \<Rightarrow> bool \<Rightarrow> 'o transport
   \<Rightarrow> (error + 'o) \<times> 'o transport"
where
  "CreateContact cv self new_contact insert_uri_arg url_params escape_params t =
     before_sending (if truthy insert_uri_arg then Inr (py_str insert_uri_arg)
          else GetFeedUri self ''contacts'' None ''full'' None)
       (\<lambda>insert_uri. Post new_contact insert_uri url_params escape_params
                        (ContactEntryFromString cv)) t"

definition UpdateContact ::
  "'o gdata_contacts \<Rightarrow> ContactsService \<Rightarrow> string \<Rightarrow> 'o payload
   \<Rightarrow> (string \<times> string) list option \<Rightarrow> bool \<Rightarrow> 'o transport
   \<Rightarrow> (error + 'o) \<times> 'o transport"
where
  "UpdateContact cv self edit_uri updated_contact url_params escape_params t =
     before_sending (CleanUri self edit_uri)
       (\<lambda>uri. Put updated_contact uri url_params escape_params
                 (ContactEntryFromString cv)) t"

text \<open>\<open>DeleteContact\<close> accepts \<open>extra_headers\<close> and does not pass it on.\<close>

definition DeleteContact ::
  "ContactsService \<Rightarrow> string \<Rightarrow> (string \<times> string) list option
   \<Rightarrow> (string \<times> string) list option \<Rightarrow> bool \<Rightarrow> 'o transport
   \<Rightarrow> (error + bool) \<times> 'o transport"
where
  "DeleteContact self edit_uri extra_headers url_params escape_params t =
     before_sending (CleanUri self edit_uri) (\<lambda>uri. Delete uri url_params escape_params) t"

section \<open>Groups\<close>

definition GetGroupsFeed ::
  "'o gdata_contacts \<Rightarrow> ContactsService \<Rightarrow> string option \<Rightarrow> 'o transport
   \<Rightarrow> (error + 'o) \<times> 'o transport"
where
  "GetGroupsFeed cv self uri_arg t =
     before_sending (if truthy uri_arg then Inr (py_str uri_arg)
          else GetFeedUri self ''groups'' None ''full'' None)
       (\<lambda>uri. Get uri (GroupsFeedFromString cv)) t"

definition CreateGroup ::
  "'o gdata_contacts \<Rightarrow> ContactsService \<Rightarrow> 'o payload \<Rightarrow> string option
   \<Rightarrow> (string \<times> string) list option \<Rightarrow> bool \<Rightarrow> 'o transport
   \<Rightarrow> (error + 'o) \<times> 'o transport"
where
  "CreateGroup cv self new_group insert_uri_arg url_params escape_params t =
     before_sending (if truthy insert_uri_arg then Inr (py_str insert_uri_arg)
          else GetFeedUri self ''groups'' None ''full'' None)
       (\<lambda>insert_uri. Post new_group insert_uri url_params escape_params
                        (GroupEntryFromString cv)) t"

definition UpdateGroup ::
  "'o gdata_contacts \<Rightarrow> ContactsService \<Rightarrow> string \<Rightarrow> 'o payload
   \<Rightarrow> (string \<times> string) list option \<Rightarrow> bool \<Rightarrow> 'o transport
   \<Rightarrow> (error + 'o) \<times> 'o transport"
where
  "UpdateGroup cv self edit_uri updated_group url_params escape_params t =
     before_sending (CleanUri self edit_uri)
       (\<lambda>uri. Put updated_group uri url_params escape_params
                 (GroupEntryFromString cv)) t"

definition DeleteGroup ::
  "ContactsService \<Rightarrow> string \<Rightarrow> (string \<times> string) list option
   \<Rightarrow> (string \<times> string) list option \<Rightarrow> bool \<Rightarrow> 'o transport
   \<Rightarrow> (error + bool) \<times> 'o transport"
where
  "DeleteGroup self edit_uri extra_headers url_params escape_params t =
     before_sending (CleanUri self edit_uri) (\<lambda>uri. Delete uri url_params escape_params) t"

section \<open>Photos\<close>

text \<open>
  \<open>ChangePhoto\<close> finds the URL first, then wraps the media, then sends the \<open>Put\<close>,
  with the URL as it found it.
\<close>

definition ChangePhoto ::
  "ContactsService \<Rightarrow> media \<Rightarrow> entry_or_url \<Rightarrow> string option \<Rightarrow> nat option
   \<Rightarrow> 'o transport \<Rightarrow> (error + string) \<times> 'o transport"
where
  "ChangePhoto self media_arg contact_entry_or_url ctype clen t =
     before_sending (case contact_entry_or_url of
            Entry entry \<Rightarrow> get_href (GetPhotoEditLink entry)
          | Url u \<Rightarrow> Inr u)
       (\<lambda>url.
          let payload =
            (case media_arg of
               MediaSourceObject m \<Rightarrow> m
             | FileObject h \<Rightarrow> MediaSource_init (Some h) ctype clen None
             | FileName p \<Rightarrow> MediaSource_init None ctype clen (Some p))
          in Put (Media payload) url None True no_converter) t"

text \<open>
  \<open>GetPhoto\<close> starts from \<open>url = None\<close>, reads the \<open>href\<close> only of a link that is
  there, and fetches only a URL that is true.
\<close>

definition GetPhoto ::
  "ContactsService \<Rightarrow> entry_or_url \<Rightarrow> 'o transport
   \<Rightarrow> (error + string option) \<times> 'o transport"
where
  "GetPhoto self contact_entry_or_url t =
     (let url =
        (case contact_entry_or_url of
           Entry entry \<Rightarrow>
             (case GetPhotoLink entry of None \<Rightarrow> None | Some l \<Rightarrow> Some (href l))
         | Url u \<Rightarrow> Some u)
      in if truthy url
         then (case Get (py_str url) str t of
                 (Inl e, t') \<Rightarrow> (Inl e, t')
               | (Inr b, t') \<Rightarrow> (Inr (Some b), t'))
         else (Inr None, t))"

text \<open>
  \<open>DeletePhoto\<close> starts from \<open>url = None\<close> too, but reads the \<open>href\<close> of whatever
  \<open>GetPhotoEditLink\<close> returned; the result of \<open>Delete\<close> is dropped.
\<close>

definition DeletePhoto ::
  "ContactsService \<Rightarrow> entry_or_url \<Rightarrow> 'o transport \<Rightarrow> (error + unit) \<times> 'o transport"
where
  "DeletePhoto self contact_entry_or_url t =
     before_sending (case contact_entry_or_url of
            Entry entry \<Rightarrow> bind (get_href (GetPhotoEditLink entry)) (\<lambda>h. Inr (Some h))
          | Url u \<Rightarrow> Inr (Some u))
       (\<lambda>url t0.
          if truthy url
          then (case Delete (py_str url) None True t0 of
                  (Inl e, t') \<Rightarrow> (Inl e, t')
                | (Inr ack, t') \<Rightarrow> (Inr (), t'))
          else (Inr (), t0)) t"

section \<open>Profiles and batches\<close>

definition GetProfilesFeed ::
  "'o gdata_contacts \<Rightarrow> ContactsService \<Rightarrow> string option \<Rightarrow> 'o transport
   \<Rightarrow> (error + 'o) \<times> 'o transport"
where
  "GetProfilesFeed cv self uri_arg t =
     before_sending (if truthy uri_arg then Inr (py_str uri_arg)
          else GetFeedUri self ''profiles'' None ''full'' None)
       (\<lambda>uri. Get uri (ProfilesFeedFromString cv)) t"

definition GetProfile ::
  "'o gdata_contacts \<Rightarrow> ContactsService \<Rightarrow> string \<Rightarrow> 'o transport
   \<Rightarrow> (error + 'o) \<times> 'o transport"
where
  "GetProfile cv self uri t = Get uri (ProfileEntryFromString cv) t"

definition UpdateProfile ::
  "'o gdata_contacts \<Rightarrow> ContactsService \<Rightarrow> string \<Rightarrow> 'o payload
   \<Rightarrow> (string \<times> string) list option \<Rightarrow> bool \<Rightarrow> 'o transport
   \<Rightarrow> (error + 'o) \<times> 'o transport"
where
  "UpdateProfile cv self edit_uri updated_profile url_params escape_params t =
     before_sending (CleanUri self edit_uri)
       (\<lambda>uri. Put updated_profile uri url_params escape_params
                 (ProfileEntryFromString cv)) t"

text \<open>
  The two batch methods have the same body; only the default of \<open>converter\<close> differs.
\<close>

definition ExecuteBatch ::
  "'o gdata_contacts \<Rightarrow> ContactsService \<Rightarrow> 'o payload \<Rightarrow> string
   \<Rightarrow> (string \<Rightarrow> 'o) option \<Rightarrow> 'o transport \<Rightarrow> (error + 'o) \<times> 'o transport"
where
  "ExecuteBatch cv self batch_feed url converter_arg t =
     (let converter =
        (case converter_arg of None \<Rightarrow> ContactsFeedFromString cv | Some f \<Rightarrow> f)
      in Post batch_feed url None True converter t)"

definition ExecuteBatchProfiles ::
  "'o gdata_contacts \<Rightarrow> ContactsService \<Rightarrow> 'o payload \<Rightarrow> string
   \<Rightarrow> (string \<Rightarrow> 'o) option \<Rightarrow> 'o transport \<Rightarrow> (error + 'o) \<times> 'o transport"
where
  "ExecuteBatchProfiles cv self batch_feed url converter_arg t =
     (let converter =
        (case converter_arg of None \<Rightarrow> ProfilesFeedFromString cv | Some f \<Rightarrow> f)
      in Post batch_feed url None True converter t)"

section \<open>Example values\<close>

text \<open>
  A client with the constructor's defaults, three servers that give every request the
  same answer, one that refuses only the \<open>GET\<close> requests, and converters that label the response body with the kind they read.
\<close>

definition example_service :: ContactsService where
  "example_service = init None None"

definition photo_server :: "string request \<Rightarrow> response" where
  "photo_server rq = \<lparr>status = 200, reason = ''OK'', body = ''photo''\<rparr>"

definition created_server :: "string request \<Rightarrow> response" where
  "created_server rq = \<lparr>status = 201, reason = ''Created'', body = ''<entry/>''\<rparr>"

definition gets_fail_server :: "string request \<Rightarrow> response" where
  "gets_fail_server rq =
     (if req_method rq = GET
      then \<lparr>status = 404, reason = ''Not Found'', body = ''no such entry''\<rparr>
      else \<lparr>status = 200, reason = ''OK'', body = ''<entry/>''\<rparr>)"

definition not_found_server :: "string request \<Rightarrow> response" where
  "not_found_server rq = \<lparr>status = 404, reason = ''Not Found'', body = ''no such entry''\<rparr>"

definition labelling :: "string gdata_contacts" where
  "labelling =
     \<lparr>ContactsFeedFromString = (@) ''contacts feed: '',
      ContactEntryFromString = (@) ''contact entry: '',
      GroupsFeedFromString = (@) ''groups feed: '',
      GroupEntryFromString = (@) ''group entry: '',
      ProfilesFeedFromString = (@) ''profiles feed: '',
      ProfileEntryFromString = (@) ''profile entry: ''\<rparr>"

section \<open>Formats and prefixes\<close>

lemma fmt_domain: "py_format ''domain/%s'' [l] = Inr (''domain/'' @ l)"
  by (simp add: bind_def)

lemma fmt_prefix: "py_format ''%s://%s'' [s, h] = Inr (s @ ''://'' @ h)"
  by (simp add: bind_def)

lemma fmt_feed:
  "py_format ''%s/m8/feeds/%s/%s/%s'' [p, k, l, j] =
     Inr (p @ ''/m8/feeds/'' @ k @ ''/'' @ l @ ''/'' @ j)"
  by (simp add: bind_def)

lemma fmt_http: "py_format ''http://%s'' [h] = Inr (''http://'' @ h)"
  by (simp add: bind_def)

lemma startswith_iff: "startswith s p \<longleftrightarrow> (\<exists>r. s = p @ r)"
  by (induction s p rule: startswith.induct) auto

lemma drop_own_prefix: "drop (length p) (p @ r) = r"
  by simp

text \<open>The formats of \<open>GetFeedUri\<close> and \<open>_CleanUri\<close> never raise.\<close>

lemma GetFeedUri_eq:
  "GetFeedUri self kind cl projection scheme =
     Inr ((if truthy scheme then py_str scheme @ ''://'' @ server self else [])
          @ ''/m8/feeds/'' @ kind @ ''/''
          @ (if kind = ''profiles'' then ''domain/'' else [])
          @ (if truthy cl then py_str cl else contact_list self)
          @ ''/'' @ projection)"
  by (simp add: GetFeedUri_def Let_def bind_def fmt_domain fmt_prefix fmt_feed py_or_def
      del: py_format.simps)

lemma CleanUri_eq:
  "CleanUri self uri =
     Inr (if startswith uri (''http://'' @ server self)
          then drop (length (''http://'' @ server self)) uri else uri)"
  by (simp add: CleanUri_def bind_def fmt_http slice_from_def del: py_format.simps)

text \<open>A URI that carries the prefix is changed by \<open>_CleanUri\<close>: it gets shorter.\<close>

lemma CleanUri_changes:
  assumes "startswith uri (''http://'' @ server self)"
  shows "CleanUri self uri \<noteq> Inr uri"
proof -
  from assms obtain r where r: "uri = (''http://'' @ server self) @ r"
    unfolding startswith_iff by blast
  have "CleanUri self uri = Inr (drop (length (''http://'' @ server self)) uri)"
    using assms by (simp only: CleanUri_eq if_True)
  also have "drop (length (''http://'' @ server self)) uri = r"
    unfolding r by (rule drop_own_prefix)
  finally have "CleanUri self uri = Inr r" .
  moreover have "length r < length uri" unfolding r by simp
  ultimately show ?thesis by auto
qed

section \<open>Feed URIs\<close>

text \<open>
  Claim C1, as the code has it. \<open>GetFeedUri\<close> always returns a string, of the shape
  \<open><prefix>/m8/feeds/<kind>/<list>/<projection>\<close>. The prefix is
  \<open><scheme>://<server>\<close> when a scheme is given and is not empty, and is empty when the
  scheme is \<open>None\<close> or the empty string. The list is the argument when it is given and
  not empty and the client's contact list otherwise, after \<open>domain/\<close> when the kind is
  \<open>profiles\<close>. With kind \<open>contacts\<close>, list \<open>default\<close>, projection \<open>full\<close> and no
  scheme the result is \<open>/m8/feeds/contacts/default/full\<close>.
\<close>

theorem GetFeedUri_shape:
  "GetFeedUri self kind cl projection scheme =
     Inr ((case scheme of None \<Rightarrow> []
           | Some s \<Rightarrow> if s = [] then [] else s @ ''://'' @ server self)
          @ ''/m8/feeds/'' @ kind @ ''/''
          @ (if kind = ''profiles'' then ''domain/'' else [])
          @ (case cl of None \<Rightarrow> contact_list self
             | Some l \<Rightarrow> if l = [] then contact_list self else l)
          @ ''/'' @ projection)
   \<and> GetFeedUri self ''contacts'' (Some ''default'') ''full'' None =
       Inr ''/m8/feeds/contacts/default/full''"
  by (simp add: GetFeedUri_eq split: option.split)

theorem GetFeedUri_shape_witness:
  "GetFeedUri example_service ''profiles'' None ''full'' (Some ''https'') =
     Inr ''https://www.google.com/m8/feeds/profiles/domain/default/full''"
  using GetFeedUri_shape [of example_service "''profiles''" None "''full''" "Some ''https''"]
  by (simp add: example_service_def init_def)

text \<open>
  The claim as it was written asks for \<open><scheme>://<server>/...\<close> whenever a scheme is
  given. Given the empty string as the scheme, the code returns the relative path.
\<close>

theorem GetFeedUri_empty_scheme_counterexample:
  "GetFeedUri example_service ''contacts'' (Some ''default'') ''full'' (Some []) =
     Inr ''/m8/feeds/contacts/default/full''
   \<and> GetFeedUri example_service ''contacts'' (Some ''default'') ''full'' (Some []) \<noteq>
     Inr ([] @ ''://'' @ server example_service @ ''/m8/feeds/contacts/default/full'')"
  by (simp add: GetFeedUri_eq example_service_def init_def)

section \<open>Normalizing a URI\<close>




section \<open>One request, one answer\<close>

lemma round_trip_sent: "sent (snd (round_trip rq converter t)) = sent t @ [rq]"
  by (simp add: round_trip_def Let_def)

lemma before_sending_Inr: "before_sending (Inr x) f t = f x t"
  by (simp add: before_sending_def)

text \<open>The URI of a feed method is always found: its own argument, or the default feed.\<close>

lemma default_feed_uri:
  "(if truthy uri_arg then Inr (py_str uri_arg) else GetFeedUri self kind None ''full'' None) =
     Inr (if truthy uri_arg then py_str uri_arg
          else ''/m8/feeds/'' @ kind @ ''/'' @ (if kind = ''profiles'' then ''domain/'' else [])
               @ contact_list self @ ''/full'')"
  by (simp add: GetFeedUri_eq)

section \<open>Request errors\<close>

text \<open>
  Claim C3. Each get, create, update and delete method of contacts, groups and profiles
  sends one request: the method, URI, payload and parameters are the ones written out
  below. Whenever the transport reports a status that is not 2xx for that request, the
  method ends in the request error that carries the status code, the reason phrase and
  the body of that response as the transport reported them, and the request is the one
  thing added to what was sent. What the server would answer to any other request does
  not matter.
\<close>

theorem request_error_passed_through:
  "(let rq = \<lparr>req_method = GET,
                 req_uri = (if truthy uri_arg then py_str uri_arg
                            else ''/m8/feeds/contacts/'' @ contact_list self @ ''/full''),
                 req_data = None, req_url_params = None,
                 req_escape_params = True\<rparr>
        in \<not> is_success (status (respond t rq)) \<longrightarrow>
           GetContactsFeed cv self uri_arg t =
             (Inl (RequestError (status (respond t rq)) (reason (respond t rq))
                     (body (respond t rq))),
              t\<lparr>sent := sent t @ [rq]\<rparr>))
   \<and> (let rq = \<lparr>req_method = GET,
                 req_uri = uri,
                 req_data = None, req_url_params = None,
                 req_escape_params = True\<rparr>
        in \<not> is_success (status (respond t rq)) \<longrightarrow>
           GetContact cv self uri t =
             (Inl (RequestError (status (respond t rq)) (reason (respond t rq))
                     (body (respond t rq))),
              t\<lparr>sent := sent t @ [rq]\<rparr>))
   \<and> (let rq = \<lparr>req_method = POST,
                 req_uri = (if truthy uri_arg then py_str uri_arg
                            else ''/m8/feeds/contacts/'' @ contact_list self @ ''/full''),
                 req_data = Some entry, req_url_params = params,
                 req_escape_params = esc\<rparr>
        in \<not> is_success (status (respond t rq)) \<longrightarrow>
           CreateContact cv self entry uri_arg params esc t =
             (Inl (RequestError (status (respond t rq)) (reason (respond t rq))
                     (body (respond t rq))),
              t\<lparr>sent := sent t @ [rq]\<rparr>))
   \<and> (let rq = \<lparr>req_method = PUT,
                 req_uri = (if startswith edit_uri (''http://'' @ server self)
                            then drop (length (''http://'' @ server self)) edit_uri
                            else edit_uri),
                 req_data = Some entry, req_url_params = params,
                 req_escape_params = esc\<rparr>
        in \<not> is_success (status (respond t rq)) \<longrightarrow>
           UpdateContact cv self edit_uri entry params esc t =
             (Inl (RequestError (status (respond t rq)) (reason (respond t rq))
                     (body (respond t rq))),
              t\<lparr>sent := sent t @ [rq]\<rparr>))
   \<and> (let rq = \<lparr>req_method = DELETE,
                 req_uri = (if startswith edit_uri (''http://'' @ server self)
                            then drop (length (''http://'' @ server self)) edit_uri
                            else edit_uri),
                 req_data = None, req_url_params = params,
                 req_escape_params = esc\<rparr>
        in \<not> is_success (status (respond t rq)) \<longrightarrow>
           DeleteContact self edit_uri hdrs params esc t =
             (Inl (RequestError (status (respond t rq)) (reason (respond t rq))
                     (body (respond t rq))),
              t\<lparr>sent := sent t @ [rq]\<rparr>))
   \<and> (let rq = \<lparr>req_method = GET,
                 req_uri = (if truthy uri_arg then py_str uri_arg
                            else ''/m8/feeds/groups/'' @ contact_list self @ ''/full''),
                 req_data = None, req_url_params = None,
                 req_escape_params = True\<rparr>
        in \<not> is_success (status (respond t rq)) \<longrightarrow>
           GetGroupsFeed cv self uri_arg t =
             (Inl (RequestError (status (respond t rq)) (reason (respond t rq))
                     (body (respond t rq))),
              t\<lparr>sent := sent t @ [rq]\<rparr>))
   \<and> (let rq = \<lparr>req_method = POST,
                 req_uri = (if truthy uri_arg then py_str uri_arg
                            else ''/m8/feeds/groups/'' @ contact_list self @ ''/full''),
                 req_data = Some entry, req_url_params = params,
                 req_escape_params = esc\<rparr>
        in \<not> is_success (status (respond t rq)) \<longrightarrow>
           CreateGroup cv self entry uri_arg params esc t =
             (Inl (RequestError (status (respond t rq)) (reason (respond t rq))
                     (body (respond t rq))),
              t\<lparr>sent := sent t @ [rq]\<rparr>))
   \<and> (let rq = \<lparr>req_method = PUT,
                 req_uri = (if startswith edit_uri (''http://'' @ server self)
                            then drop (length (''http://'' @ server self)) edit_uri
                            else edit_uri),
                 req_data = Some entry, req_url_params = params,
                 req_escape_params = esc\<rparr>
        in \<not> is_success (status (respond t rq)) \<longrightarrow>
           UpdateGroup cv self edit_uri entry params esc t =
             (Inl (RequestError (status (respond t rq)) (reason (respond t rq))
                     (body (respond t rq))),
              t\<lparr>sent := sent t @ [rq]\<rparr>))
   \<and> (let rq = \<lparr>req_method = DELETE,
                 req_uri = (if startswith edit_uri (''http://'' @ server self)
                            then drop (length (''http://'' @ server self)) edit_uri
                            else edit_uri),
                 req_data = None, req_url_params = params,
                 req_escape_params = esc\<rparr>
        in \<not> is_success (status (respond t rq)) \<longrightarrow>
           DeleteGroup self edit_uri hdrs params esc t =
             (Inl (RequestError (status (respond t rq)) (reason (respond t rq))
                     (body (respond t rq))),
              t\<lparr>sent := sent t @ [rq]\<rparr>))
   \<and> (let rq = \<lparr>req_method = GET,
                 req_uri = (if truthy uri_arg then py_str uri_arg
                            else ''/m8/feeds/profiles/domain/'' @ contact_list self @ ''/full''),
                 req_data = None, req_url_params = None,
                 req_escape_params = True\<rparr>
        in \<not> is_success (status (respond t rq)) \<longrightarrow>
           GetProfilesFeed cv self uri_arg t =
             (Inl (RequestError (status (respond t rq)) (reason (respond t rq))
                     (body (respond t rq))),
              t\<lparr>sent := sent t @ [rq]\<rparr>))
   \<and> (let rq = \<lparr>req_method = GET,
                 req_uri = uri,
                 req_data = None, req_url_params = None,
                 req_escape_params = True\<rparr>
        in \<not> is_success (status (respond t rq)) \<longrightarrow>
           GetProfile cv self uri t =
             (Inl (RequestError (status (respond t rq)) (reason (respond t rq))
                     (body (respond t rq))),
              t\<lparr>sent := sent t @ [rq]\<rparr>))
   \<and> (let rq = \<lparr>req_method = PUT,
                 req_uri = (if startswith edit_uri (''http://'' @ server self)
                            then drop (length (''http://'' @ server self)) edit_uri
                            else edit_uri),
                 req_data = Some entry, req_url_params = params,
                 req_escape_params = esc\<rparr>
        in \<not> is_success (status (respond t rq)) \<longrightarrow>
           UpdateProfile cv self edit_uri entry params esc t =
             (Inl (RequestError (status (respond t rq)) (reason (respond t rq))
                     (body (respond t rq))),
              t\<lparr>sent := sent t @ [rq]\<rparr>))"
proof -
  have c1:
    "(let rq = \<lparr>req_method = GET,
                 req_uri = (if truthy uri_arg then py_str uri_arg
                            else ''/m8/feeds/contacts/'' @ contact_list self @ ''/full''),
                 req_data = None, req_url_params = None,
                 req_escape_params = True\<rparr>
        in \<not> is_success (status (respond t rq)) \<longrightarrow>
           GetContactsFeed cv self uri_arg t =
             (Inl (RequestError (status (respond t rq)) (reason (respond t rq))
                     (body (respond t rq))),
              t\<lparr>sent := sent t @ [rq]\<rparr>))"
    by (simp add: GetContactsFeed_def default_feed_uri Get_def before_sending_Inr round_trip_def Let_def)
  have c2:
    "(let rq = \<lparr>req_method = GET,
                 req_uri = uri,
                 req_data = None, req_url_params = None,
                 req_escape_params = True\<rparr>
        in \<not> is_success (status (respond t rq)) \<longrightarrow>
           GetContact cv self uri t =
             (Inl (RequestError (status (respond t rq)) (reason (respond t rq))
                     (body (respond t rq))),
              t\<lparr>sent := sent t @ [rq]\<rparr>))"
    by (simp add: GetContact_def Get_def before_sending_Inr round_trip_def Let_def)
  have c3:
    "(let rq = \<lparr>req_method = POST,
                 req_uri = (if truthy uri_arg then py_str uri_arg
                            else ''/m8/feeds/contacts/'' @ contact_list self @ ''/full''),
                 req_data = Some entry, req_url_params = params,
                 req_escape_params = esc\<rparr>
        in \<not> is_success (status (respond t rq)) \<longrightarrow>
           CreateContact cv self entry uri_arg params esc t =
             (Inl (RequestError (status (respond t rq)) (reason (respond t rq))
                     (body (respond t rq))),
              t\<lparr>sent := sent t @ [rq]\<rparr>))"
    by (simp add: CreateContact_def default_feed_uri Post_def before_sending_Inr round_trip_def Let_def)
  have c4:
    "(let rq = \<lparr>req_method = PUT,
                 req_uri = (if startswith edit_uri (''http://'' @ server self)
                            then drop (length (''http://'' @ server self)) edit_uri
                            else edit_uri),
                 req_data = Some entry, req_url_params = params,
                 req_escape_params = esc\<rparr>
        in \<not> is_success (status (respond t rq)) \<longrightarrow>
           UpdateContact cv self edit_uri entry params esc t =
             (Inl (RequestError (status (respond t rq)) (reason (respond t rq))
                     (body (respond t rq))),
              t\<lparr>sent := sent t @ [rq]\<rparr>))"
    by (simp add: UpdateContact_def CleanUri_eq Put_def before_sending_Inr round_trip_def Let_def)
  have c5:
    "(let rq = \<lparr>req_method = DELETE,
                 req_uri = (if startswith edit_uri (''http://'' @ server self)
                            then drop (length (''http://'' @ server self)) edit_uri
                            else edit_uri),
                 req_data = None, req_url_params = params,
                 req_escape_params = esc\<rparr>
        in \<not> is_success (status (respond t rq)) \<longrightarrow>
           DeleteContact self edit_uri hdrs params esc t =
             (Inl (RequestError (status (respond t rq)) (reason (respond t rq))
                     (body (respond t rq))),
              t\<lparr>sent := sent t @ [rq]\<rparr>))"
    by (simp add: DeleteContact_def CleanUri_eq Delete_def before_sending_Inr round_trip_def Let_def)
  have c6:
    "(let rq = \<lparr>req_method = GET,
                 req_uri = (if truthy uri_arg then py_str uri_arg
                            else ''/m8/feeds/groups/'' @ contact_list self @ ''/full''),
                 req_data = None, req_url_params = None,
                 req_escape_params = True\<rparr>
        in \<not> is_success (status (respond t rq)) \<longrightarrow>
           GetGroupsFeed cv self uri_arg t =
             (Inl (RequestError (status (respond t rq)) (reason (respond t rq))
                     (body (respond t rq))),
              t\<lparr>sent := sent t @ [rq]\<rparr>))"
    by (simp add: GetGroupsFeed_def default_feed_uri Get_def before_sending_Inr round_trip_def Let_def)
  have c7:
    "(let rq = \<lparr>req_method = POST,
                 req_uri = (if truthy uri_arg then py_str uri_arg
                            else ''/m8/feeds/groups/'' @ contact_list self @ ''/full''),
                 req_data = Some entry, req_url_params = params,
                 req_escape_params = esc\<rparr>
        in \<not> is_success (status (respond t rq)) \<longrightarrow>
           CreateGroup cv self entry uri_arg params esc t =
             (Inl (RequestError (status (respond t rq)) (reason (respond t rq))
                     (body (respond t rq))),
              t\<lparr>sent := sent t @ [rq]\<rparr>))"
    by (simp add: CreateGroup_def default_feed_uri Post_def before_sending_Inr round_trip_def Let_def)
  have c8:
    "(let rq = \<lparr>req_method = PUT,
                 req_uri = (if startswith edit_uri (''http://'' @ server self)
                            then drop (length (''http://'' @ server self)) edit_uri
                            else edit_uri),
                 req_data = Some entry, req_url_params = params,
                 req_escape_params = esc\<rparr>
        in \<not> is_success (status (respond t rq)) \<longrightarrow>
           UpdateGroup cv self edit_uri entry params esc t =
             (Inl (RequestError (status (respond t rq)) (reason (respond t rq))
                     (body (respond t rq))),
              t\<lparr>sent := sent t @ [rq]\<rparr>))"
    by (simp add: UpdateGroup_def CleanUri_eq Put_def before_sending_Inr round_trip_def Let_def)
  have c9:
    "(let rq = \<lparr>req_method = DELETE,
                 req_uri = (if startswith edit_uri (''http://'' @ server self)
                            then drop (length (''http://'' @ server self)) edit_uri
                            else edit_uri),
                 req_data = None, req_url_params = params,
                 req_escape_params = esc\<rparr>
        in \<not> is_success (status (respond t rq)) \<longrightarrow>
           DeleteGroup self edit_uri hdrs params esc t =
             (Inl (RequestError (status (respond t rq)) (reason (respond t rq))
                     (body (respond t rq))),
              t\<lparr>sent := sent t @ [rq]\<rparr>))"
    by (simp add: DeleteGroup_def CleanUri_eq Delete_def before_sending_Inr round_trip_def Let_def)
  have c10:
    "(let rq = \<lparr>req_method = GET,
                 req_uri = (if truthy uri_arg then py_str uri_arg
                            else ''/m8/feeds/profiles/domain/'' @ contact_list self @ ''/full''),
                 req_data = None, req_url_params = None,
                 req_escape_params = True\<rparr>
        in \<not> is_success (status (respond t rq)) \<longrightarrow>
           GetProfilesFeed cv self uri_arg t =
             (Inl (RequestError (status (respond t rq)) (reason (respond t rq))
                     (body (respond t rq))),
              t\<lparr>sent := sent t @ [rq]\<rparr>))"
    by (simp add: GetProfilesFeed_def default_feed_uri Get_def before_sending_Inr round_trip_def Let_def)
  have c11:
    "(let rq = \<lparr>req_method = GET,
                 req_uri = uri,
                 req_data = None, req_url_params = None,
                 req_escape_params = True\<rparr>
        in \<not> is_success (status (respond t rq)) \<longrightarrow>
           GetProfile cv self uri t =
             (Inl (RequestError (status (respond t rq)) (reason (respond t rq))
                     (body (respond t rq))),
              t\<lparr>sent := sent t @ [rq]\<rparr>))"
    by (simp add: GetProfile_def Get_def before_sending_Inr round_trip_def Let_def)
  have c12:
    "(let rq = \<lparr>req_method = PUT,
                 req_uri = (if startswith edit_uri (''http://'' @ server self)
                            then drop (length (''http://'' @ server self)) edit_uri
                            else edit_uri),
                 req_data = Some entry, req_url_params = params,
                 req_escape_params = esc\<rparr>
        in \<not> is_success (status (respond t rq)) \<longrightarrow>
           UpdateProfile cv self edit_uri entry params esc t =
             (Inl (RequestError (status (respond t rq)) (reason (respond t rq))
                     (body (respond t rq))),
              t\<lparr>sent := sent t @ [rq]\<rparr>))"
    by (simp add: UpdateProfile_def CleanUri_eq Put_def before_sending_Inr round_trip_def Let_def)
  show ?thesis
    by (intro conjI) (rule c1 c2 c3 c4 c5 c6 c7 c8 c9 c10 c11 c12)+
qed

theorem request_error_passed_through_witness:
  "\<not> is_success (status (gets_fail_server
       \<lparr>req_method = GET, req_uri = ''/m8/feeds/contacts/default/full/1'', req_data = None,
        req_url_params = None, req_escape_params = True\<rparr>))
   \<and> is_success (status (gets_fail_server
       \<lparr>req_method = POST, req_uri = ''/m8/feeds/contacts/default/full'',
        req_data = Some (Atom ''new''), req_url_params = None, req_escape_params = True\<rparr>))
   \<and> GetContact labelling example_service ''/m8/feeds/contacts/default/full/1''
         \<lparr>respond = gets_fail_server, sent = []\<rparr> =
       (Inl (RequestError 404 ''Not Found'' ''no such entry''),
        \<lparr>respond = gets_fail_server,
          sent = [\<lparr>req_method = GET, req_uri = ''/m8/feeds/contacts/default/full/1'',
                   req_data = None, req_url_params = None, req_escape_params = True\<rparr>]\<rparr>)
   \<and> \<not> is_success (status (not_found_server
       \<lparr>req_method = POST, req_uri = ''/m8/feeds/contacts/default/full'',
        req_data = Some (Atom ''new''), req_url_params = None, req_escape_params = True\<rparr>))
   \<and> CreateContact labelling example_service (Atom ''new'') None None True
         \<lparr>respond = not_found_server, sent = []\<rparr> =
       (Inl (RequestError 404 ''Not Found'' ''no such entry''),
        \<lparr>respond = not_found_server,
          sent = [\<lparr>req_method = POST, req_uri = ''/m8/feeds/contacts/default/full'',
                   req_data = Some (Atom ''new''), req_url_params = None,
                   req_escape_params = True\<rparr>]\<rparr>)
   \<and> fst (UpdateContact labelling example_service
              ''http://www.google.com/m8/feeds/contacts/default/full/1''
              (Atom ''new'') None True \<lparr>respond = not_found_server, sent = []\<rparr>) =
       Inl (RequestError 404 ''Not Found'' ''no such entry'')
   \<and> fst (DeleteContact example_service
              ''http://www.google.com/m8/feeds/contacts/default/full/1'' None None True
              \<lparr>respond = not_found_server, sent = []\<rparr>) =
       Inl (RequestError 404 ''Not Found'' ''no such entry'')"
  using
    request_error_passed_through [where t = "\<lparr>respond = gets_fail_server, sent = []\<rparr>"
      and cv = labelling and self = example_service and uri_arg = None
      and uri = "''/m8/feeds/contacts/default/full/1''"
      and edit_uri = "''http://www.google.com/m8/feeds/contacts/default/full/1''"
      and entry = "Atom ''new''" and params = None and esc = True and hdrs = None]
    request_error_passed_through [where t = "\<lparr>respond = not_found_server, sent = []\<rparr>"
      and cv = labelling and self = example_service and uri_arg = None
      and uri = "''/m8/feeds/contacts/default/full/1''"
      and edit_uri = "''http://www.google.com/m8/feeds/contacts/default/full/1''"
      and entry = "Atom ''new''" and params = None and esc = True and hdrs = None]
  by (simp add: gets_fail_server_def not_found_server_def is_success_def Let_def
      example_service_def init_def)

section \<open>Edit URIs\<close>

text \<open>
  Claim C4. \<open>UpdateContact\<close>, \<open>DeleteContact\<close>, \<open>UpdateGroup\<close>, \<open>DeleteGroup\<close> and
  \<open>UpdateProfile\<close> each send one \<open>PUT\<close> or \<open>DELETE\<close>, and its URI is the result of
  \<open>_CleanUri\<close> on the edit URI they were given. When the edit URI carries the prefix
  \<open>http://<server>\<close>, the URI sent is not the string the caller supplied.
\<close>

theorem edit_uri_normalized:
  "\<exists>uri. CleanUri self edit_uri = Inr uri
     \<and> sent (snd (UpdateContact cv self edit_uri entry params esc t)) =
         sent t @ [\<lparr>req_method = PUT, req_uri = uri, req_data = Some entry,
                    req_url_params = params, req_escape_params = esc\<rparr>]
     \<and> sent (snd (DeleteContact self edit_uri hdrs params esc t)) =
         sent t @ [\<lparr>req_method = DELETE, req_uri = uri, req_data = None,
                    req_url_params = params, req_escape_params = esc\<rparr>]
     \<and> sent (snd (UpdateGroup cv self edit_uri entry params esc t)) =
         sent t @ [\<lparr>req_method = PUT, req_uri = uri, req_data = Some entry,
                    req_url_params = params, req_escape_params = esc\<rparr>]
     \<and> sent (snd (DeleteGroup self edit_uri hdrs params esc t)) =
         sent t @ [\<lparr>req_method = DELETE, req_uri = uri, req_data = None,
                    req_url_params = params, req_escape_params = esc\<rparr>]
     \<and> sent (snd (UpdateProfile cv self edit_uri entry params esc t)) =
         sent t @ [\<lparr>req_method = PUT, req_uri = uri, req_data = Some entry,
                    req_url_params = params, req_escape_params = esc\<rparr>]
     \<and> (startswith edit_uri (''http://'' @ server self) \<longrightarrow> uri \<noteq> edit_uri)"
proof -
  obtain uri where u: "CleanUri self edit_uri = Inr uri"
    by (simp add: CleanUri_eq)
  have 1: "sent (snd (UpdateContact cv self edit_uri entry params esc t)) =
         sent t @ [\<lparr>req_method = PUT, req_uri = uri, req_data = Some entry,
                    req_url_params = params, req_escape_params = esc\<rparr>]"
    by (simp only: UpdateContact_def u before_sending_Inr Put_def round_trip_sent)
  have 2: "sent (snd (DeleteContact self edit_uri hdrs params esc t)) =
         sent t @ [\<lparr>req_method = DELETE, req_uri = uri, req_data = None,
                    req_url_params = params, req_escape_params = esc\<rparr>]"
    by (simp only: DeleteContact_def u before_sending_Inr Delete_def round_trip_sent)
  have 3: "sent (snd (UpdateGroup cv self edit_uri entry params esc t)) =
         sent t @ [\<lparr>req_method = PUT, req_uri = uri, req_data = Some entry,
                    req_url_params = params, req_escape_params = esc\<rparr>]"
    by (simp only: UpdateGroup_def u before_sending_Inr Put_def round_trip_sent)
  have 4: "sent (snd (DeleteGroup self edit_uri hdrs params esc t)) =
         sent t @ [\<lparr>req_method = DELETE, req_uri = uri, req_data = None,
                    req_url_params = params, req_escape_params = esc\<rparr>]"
    by (simp only: DeleteGroup_def u before_sending_Inr Delete_def round_trip_sent)
  have 5: "sent (snd (UpdateProfile cv self edit_uri entry params esc t)) =
         sent t @ [\<lparr>req_method = PUT, req_uri = uri, req_data = Some entry,
                    req_url_params = params, req_escape_params = esc\<rparr>]"
    by (simp only: UpdateProfile_def u before_sending_Inr Put_def round_trip_sent)
  have 6: "startswith edit_uri (''http://'' @ server self) \<longrightarrow> uri \<noteq> edit_uri"
    using CleanUri_changes [of edit_uri self] u by auto
  from u 1 2 3 4 5 6 show ?thesis by blast
qed

theorem edit_uri_normalized_witness:
  "startswith ''http://www.google.com/m8/feeds/contacts/default/full/1''
     (''http://'' @ server example_service)
   \<and> sent (snd (UpdateContact labelling example_service
                  ''http://www.google.com/m8/feeds/contacts/default/full/1''
                  (Atom ''changed'') None True \<lparr>respond = photo_server, sent = []\<rparr>)) =
       [\<lparr>req_method = PUT, req_uri = ''/m8/feeds/contacts/default/full/1'',
         req_data = Some (Atom ''changed''), req_url_params = None,
         req_escape_params = True\<rparr>]
   \<and> sent (snd (DeleteContact example_service
                  ''http://www.google.com/m8/feeds/contacts/default/full/1''
                  None None True \<lparr>respond = photo_server, sent = []\<rparr>)) =
       [\<lparr>req_method = DELETE, req_uri = ''/m8/feeds/contacts/default/full/1'',
         req_data = None, req_url_params = None, req_escape_params = True\<rparr>]"
  using edit_uri_normalized [of example_service
      "''http://www.google.com/m8/feeds/contacts/default/full/1''" labelling
      "Atom ''changed''" None True "\<lparr>respond = photo_server, sent = []\<rparr>" None]
  by (auto simp: CleanUri_eq example_service_def init_def)

section \<open>Photos\<close>

text \<open>
  Claim C5, at the input where the code departs from it. Given a contact entry with no
  photo-edit link, \<open>DeletePhoto\<close> reads \<open>href\<close> from the \<open>None\<close> that the getter
  returned and raises; it sends nothing, and it never reaches its test of the URL.
\<close>

theorem DeletePhoto_without_edit_link_raises:
  "DeletePhoto self (Entry \<lparr>photo_link = pl, photo_edit_link = None\<rparr>) t =
     (Inl (AttributeError ''NoneType object has no attribute href''), t)"
  by (simp add: DeletePhoto_def GetPhotoEditLink_def bind_def before_sending_def)

text \<open>
  The test of the URL does make \<open>DeletePhoto\<close> do nothing for an empty URL and for a
  photo-edit link whose \<open>href\<close> is empty.
\<close>

lemma DeletePhoto_guard:
  "DeletePhoto self (Url []) t = (Inr (), t)"
  "DeletePhoto self (Entry \<lparr>photo_link = pl, photo_edit_link = Some \<lparr>href = []\<rparr>\<rparr>) t =
     (Inr (), t)"
  by (simp_all add: DeletePhoto_def GetPhotoEditLink_def bind_def before_sending_def)

text \<open>
  Claim C6. Given a contact entry with no photo-edit link, \<open>ChangePhoto\<close> fails with
  the error of reading \<open>href\<close> from \<open>None\<close>, which is not a request error, and the
  transport is as it was: nothing has been sent.
\<close>

theorem ChangePhoto_without_edit_link_fails_locally:
  assumes "photo_edit_link entry = None"
  shows "ChangePhoto self m (Entry entry) ctype clen t =
           (Inl (AttributeError ''NoneType object has no attribute href''), t)
         \<and> \<not> is_RequestError (AttributeError ''NoneType object has no attribute href'')"
  using assms by (simp add: ChangePhoto_def GetPhotoEditLink_def before_sending_def)

theorem ChangePhoto_without_edit_link_fails_locally_witness:
  "photo_edit_link \<lparr>photo_link = Some \<lparr>href = ''/m8/photos/media/default/1''\<rparr>,
                    photo_edit_link = None\<rparr> = None
   \<and> ChangePhoto example_service (FileName ''face.jpg'')
       (Entry \<lparr>photo_link = Some \<lparr>href = ''/m8/photos/media/default/1''\<rparr>,
               photo_edit_link = None\<rparr>)
       (Some ''image/jpeg'') None \<lparr>respond = photo_server, sent = []\<rparr> =
       (Inl (AttributeError ''NoneType object has no attribute href''),
        \<lparr>respond = photo_server, sent = []\<rparr>)"
  using ChangePhoto_without_edit_link_fails_locally
    [of "\<lparr>photo_link = Some \<lparr>href = ''/m8/photos/media/default/1''\<rparr>,
          photo_edit_link = None\<rparr>" example_service "FileName ''face.jpg''"
        "Some ''image/jpeg''" None "\<lparr>respond = photo_server, sent = []\<rparr>"]
  by simp




text \<open>
  What \<open>str\<close> gives for a bytes body is not the body: the five bytes \<open>photo\<close> come
  back between \<open>b\<close> and a pair of single quotes, so the text \<open>GetPhoto\<close> returns for
  them is eight characters long.
\<close>

lemma str_of_bytes:
  "str ''photo'' = [CHR ''b'', CHR 0x27] @ ''photo'' @ [CHR 0x27]"
  "str ''photo'' \<noteq> ''photo''"
  by (simp_all add: str_def bytes_repr_def escape_byte_def Let_def)

lemma GetPhoto_returns_repr:
  "fst (GetPhoto example_service (Url ''/m8/photos/media/default/1'')
          \<lparr>respond = photo_server, sent = []\<rparr>) =
     Inr (Some ([CHR ''b'', CHR 0x27] @ ''photo'' @ [CHR 0x27]))"
  by (simp add: GetPhoto_def Get_def round_trip_def Let_def photo_server_def is_success_def
      str_of_bytes(1))

section \<open>Creating entries\<close>

text \<open>
  Claim C8. With no insert URI, \<open>CreateContact\<close> sends one \<open>POST\<close> of the new entry to
  \<open>/m8/feeds/contacts/<contact list>/full\<close> and \<open>CreateGroup\<close> one to
  \<open>/m8/feeds/groups/<contact list>/full\<close>; each returns the response body read by the
  converter of its kind of entry, or raises the request error when the status is not 2xx.
\<close>

theorem create_posts_to_default_feed:
  "CreateContact cv self new_contact None params esc t =
     (let rq = \<lparr>req_method = POST,
                 req_uri = ''/m8/feeds/contacts/'' @ contact_list self @ ''/full'',
                 req_data = Some new_contact, req_url_params = params,
                 req_escape_params = esc\<rparr>;
          rs = respond t rq
      in (if is_success (status rs) then Inr (ContactEntryFromString cv (body rs))
          else Inl (RequestError (status rs) (reason rs) (body rs)),
          t\<lparr>sent := sent t @ [rq]\<rparr>))
   \<and> CreateGroup cv self new_group None params esc t =
     (let rq = \<lparr>req_method = POST,
                 req_uri = ''/m8/feeds/groups/'' @ contact_list self @ ''/full'',
                 req_data = Some new_group, req_url_params = params,
                 req_escape_params = esc\<rparr>;
          rs = respond t rq
      in (if is_success (status rs) then Inr (GroupEntryFromString cv (body rs))
          else Inl (RequestError (status rs) (reason rs) (body rs)),
          t\<lparr>sent := sent t @ [rq]\<rparr>))"
  by (simp add: CreateContact_def CreateGroup_def GetFeedUri_eq before_sending_def Post_def
      round_trip_def Let_def)

theorem create_posts_to_default_feed_witness:
  "CreateContact labelling example_service (Atom ''new contact'') None None True
     \<lparr>respond = created_server, sent = []\<rparr> =
     (Inr ''contact entry: <entry/>'',
      \<lparr>respond = created_server,
        sent = [\<lparr>req_method = POST, req_uri = ''/m8/feeds/contacts/default/full'',
                 req_data = Some (Atom ''new contact''), req_url_params = None,
                 req_escape_params = True\<rparr>]\<rparr>)
   \<and> CreateGroup labelling example_service (Atom ''new group'') None None True
     \<lparr>respond = created_server, sent = []\<rparr> =
     (Inr ''group entry: <entry/>'',
      \<lparr>respond = created_server,
        sent = [\<lparr>req_method = POST, req_uri = ''/m8/feeds/groups/default/full'',
                 req_data = Some (Atom ''new group''), req_url_params = None,
                 req_escape_params = True\<rparr>]\<rparr>)"
  using create_posts_to_default_feed [of labelling example_service "Atom ''new contact''"
      None True "\<lparr>respond = created_server, sent = []\<rparr>" "Atom ''new group''"]
  by (simp add: created_server_def is_success_def Let_def labelling_def example_service_def
      init_def)

section \<open>Batches\<close>

text \<open>
  Claim C9. \<open>ExecuteBatch\<close> sends one \<open>POST\<close> that carries the feed it was given to the
  URL it was given, and returns what the converter makes of the response body (or raises
  the request error when the status is not 2xx). \<open>ExecuteBatchProfiles\<close> with a
  converter is \<open>ExecuteBatch\<close> with that converter; with none, \<open>ExecuteBatch\<close> reads a
  contacts feed and \<open>ExecuteBatchProfiles\<close> a profiles feed.
\<close>

theorem batch_is_pass_through:
  "ExecuteBatch cv self batch_feed url (Some converter) t =
     (let rq = \<lparr>req_method = POST, req_uri = url, req_data = Some batch_feed,
                 req_url_params = None, req_escape_params = True\<rparr>;
          rs = respond t rq
      in (if is_success (status rs) then Inr (converter (body rs))
          else Inl (RequestError (status rs) (reason rs) (body rs)),
          t\<lparr>sent := sent t @ [rq]\<rparr>))
   \<and> ExecuteBatchProfiles cv self batch_feed url (Some converter) t =
       ExecuteBatch cv self batch_feed url (Some converter) t
   \<and> ExecuteBatch cv self batch_feed url None t =
       ExecuteBatch cv self batch_feed url (Some (ContactsFeedFromString cv)) t
   \<and> ExecuteBatchProfiles cv self batch_feed url None t =
       ExecuteBatch cv self batch_feed url (Some (ProfilesFeedFromString cv)) t"
  by (simp add: ExecuteBatch_def ExecuteBatchProfiles_def Post_def round_trip_def Let_def)

theorem batch_is_pass_through_witness:
  "ExecuteBatch labelling example_service (Atom ''batch'')
     ''http://www.google.com/m8/feeds/contacts/default/full/batch''
     (Some (ProfilesFeedFromString labelling)) \<lparr>respond = photo_server, sent = []\<rparr> =
     (Inr ''profiles feed: photo'',
      \<lparr>respond = photo_server,
        sent = [\<lparr>req_method = POST,
                 req_uri = ''http://www.google.com/m8/feeds/contacts/default/full/batch'',
                 req_data = Some (Atom ''batch''), req_url_params = None,
                 req_escape_params = True\<rparr>]\<rparr>)
   \<and> ExecuteBatchProfiles labelling example_service (Atom ''batch'')
     ''http://www.google.com/m8/feeds/contacts/default/full/batch'' None
     \<lparr>respond = photo_server, sent = []\<rparr> =
     ExecuteBatch labelling example_service (Atom ''batch'')
     ''http://www.google.com/m8/feeds/contacts/default/full/batch''
     (Some (ProfilesFeedFromString labelling)) \<lparr>respond = photo_server, sent = []\<rparr>"
  using batch_is_pass_through [of labelling example_service "Atom ''batch''"
      "''http://www.google.com/m8/feeds/contacts/default/full/batch''"
      "ProfilesFeedFromString labelling" "\<lparr>respond = photo_server, sent = []\<rparr>"]
  by (simp add: photo_server_def is_success_def Let_def labelling_def)

section \<open>Photo URLs\<close>

text \<open>
  Claim C10. \<open>ChangePhoto\<close> sends its \<open>PUT\<close> to the URL it was given, or to the
  \<open>href\<close> of the entry's photo-edit link, as it is; \<open>DeletePhoto\<close> sends its
  \<open>DELETE\<close> to that same URL, as it is, when the URL is not empty. Neither applies
  \<open>_CleanUri\<close>: a URL that starts with \<open>http://<server>\<close> is sent whole, though
  \<open>_CleanUri\<close> would have changed it.
\<close>

theorem photo_url_not_normalized:
  "(\<exists>payload. sent (snd (ChangePhoto self m (Url u) ctype clen t)) =
       sent t @ [\<lparr>req_method = PUT, req_uri = u, req_data = Some (Media payload),
                  req_url_params = None, req_escape_params = True\<rparr>])
   \<and> (photo_edit_link entry = Some l \<longrightarrow>
        (\<exists>payload. sent (snd (ChangePhoto self m (Entry entry) ctype clen t)) =
           sent t @ [\<lparr>req_method = PUT, req_uri = href l, req_data = Some (Media payload),
                      req_url_params = None, req_escape_params = True\<rparr>]))
   \<and> (u \<noteq> [] \<longrightarrow>
        sent (snd (DeletePhoto self (Url u) t)) =
          sent t @ [\<lparr>req_method = DELETE, req_uri = u, req_data = None,
                     req_url_params = None, req_escape_params = True\<rparr>])
   \<and> (photo_edit_link entry = Some l \<and> href l \<noteq> [] \<longrightarrow>
        sent (snd (DeletePhoto self (Entry entry) t)) =
          sent t @ [\<lparr>req_method = DELETE, req_uri = href l, req_data = None,
                     req_url_params = None, req_escape_params = True\<rparr>])
   \<and> (startswith u (''http://'' @ server self) \<longrightarrow> CleanUri self u \<noteq> Inr u)"
proof -
  have 1: "\<exists>payload. sent (snd (ChangePhoto self m (Url u) ctype clen t)) =
       sent t @ [\<lparr>req_method = PUT, req_uri = u, req_data = Some (Media payload),
                  req_url_params = None, req_escape_params = True\<rparr>]"
    by (simp add: ChangePhoto_def before_sending_def Put_def round_trip_sent Let_def)
  have 2: "photo_edit_link entry = Some l \<longrightarrow>
        (\<exists>payload. sent (snd (ChangePhoto self m (Entry entry) ctype clen t)) =
           sent t @ [\<lparr>req_method = PUT, req_uri = href l, req_data = Some (Media payload),
                      req_url_params = None, req_escape_params = True\<rparr>])"
    by (simp add: ChangePhoto_def GetPhotoEditLink_def before_sending_def Put_def
        round_trip_sent Let_def)
  have 3: "u \<noteq> [] \<longrightarrow>
        sent (snd (DeletePhoto self (Url u) t)) =
          sent t @ [\<lparr>req_method = DELETE, req_uri = u, req_data = None,
                     req_url_params = None, req_escape_params = True\<rparr>]"
    by (simp add: DeletePhoto_def before_sending_def Delete_def round_trip_def Let_def)
  have 4: "photo_edit_link entry = Some l \<and> href l \<noteq> [] \<longrightarrow>
        sent (snd (DeletePhoto self (Entry entry) t)) =
          sent t @ [\<lparr>req_method = DELETE, req_uri = href l, req_data = None,
                     req_url_params = None, req_escape_params = True\<rparr>]"
    by (simp add: DeletePhoto_def GetPhotoEditLink_def bind_def before_sending_def
        Delete_def round_trip_def Let_def)
  have 5: "startswith u (''http://'' @ server self) \<longrightarrow> CleanUri self u \<noteq> Inr u"
    using CleanUri_changes by blast
  from 1 2 3 4 5 show ?thesis by blast
qed

theorem photo_url_not_normalized_witness:
  "photo_edit_link \<lparr>photo_link = None,
       photo_edit_link = Some \<lparr>href = ''http://www.google.com/m8/photos/media/default/1''\<rparr>\<rparr> =
     Some \<lparr>href = ''http://www.google.com/m8/photos/media/default/1''\<rparr>
   \<and> ''http://www.google.com/m8/photos/media/default/1'' \<noteq> []
   \<and> startswith ''http://www.google.com/m8/photos/media/default/1''
        (''http://'' @ server example_service)
   \<and> map req_uri (sent (snd (ChangePhoto example_service (FileName ''face.jpg'')
        (Entry \<lparr>photo_link = None,
           photo_edit_link = Some \<lparr>href = ''http://www.google.com/m8/photos/media/default/1''\<rparr>\<rparr>)
        (Some ''image/jpeg'') None \<lparr>respond = photo_server, sent = []\<rparr>))) =
       [''http://www.google.com/m8/photos/media/default/1'']
   \<and> sent (snd (DeletePhoto example_service
        (Entry \<lparr>photo_link = None,
           photo_edit_link = Some \<lparr>href = ''http://www.google.com/m8/photos/media/default/1''\<rparr>\<rparr>)
        \<lparr>respond = photo_server, sent = []\<rparr>)) =
       [\<lparr>req_method = DELETE, req_uri = ''http://www.google.com/m8/photos/media/default/1'',
         req_data = None, req_url_params = None, req_escape_params = True\<rparr>]
   \<and> sent (snd (DeletePhoto example_service
        (Url ''http://www.google.com/m8/photos/media/default/1'')
        \<lparr>respond = photo_server, sent = []\<rparr>)) =
       [\<lparr>req_method = DELETE, req_uri = ''http://www.google.com/m8/photos/media/default/1'',
         req_data = None, req_url_params = None, req_escape_params = True\<rparr>]
   \<and> CleanUri example_service ''http://www.google.com/m8/photos/media/default/1'' =
       Inr ''/m8/photos/media/default/1''"
  using photo_url_not_normalized [of example_service "FileName ''face.jpg''"
      "''http://www.google.com/m8/photos/media/default/1''" "Some ''image/jpeg''" None
      "\<lparr>respond = photo_server, sent = []\<rparr>"
      "\<lparr>photo_link = None,
        photo_edit_link = Some \<lparr>href = ''http://www.google.com/m8/photos/media/default/1''\<rparr>\<rparr>"
      "\<lparr>href = ''http://www.google.com/m8/photos/media/default/1''\<rparr>"]
  by (auto simp: CleanUri_eq example_service_def init_def)

end
